theory Spec2Isabelle
  imports Complex_Main "HOL-Library.Sublist"
begin

section \<open>Values of the tables\<close>

text \<open>
  \<^verbatim>\<open>coverage_exercise.py\<close> reads two delimited text files with pandas and works on
  the cells of the resulting tables. A cell of a text column is a Python \<^verbatim>\<open>str\<close>, or
  the float \<^verbatim>\<open>nan\<close> where the file has no value (an empty field of the tab-separated
  reference dump, a field such as \<^verbatim>\<open>NA\<close>), or \<^verbatim>\<open>None\<close> where
  \<^verbatim>\<open>str.split(..., expand=True)\<close> pads a row that splits into fewer parts than another.
  A cell of the numeric column \<^verbatim>\<open>percentage30\<close> is a finite number or \<^verbatim>\<open>nan\<close>.
  Characters are modelled by \<^typ>\<open>char\<close>.
\<close>

datatype cell = Str string | NaN | PyNone

datatype number = Num rat | NotANumber

datatype error =
    ValueError
  | AttributeError
  | TypeError
  | IndexError
  | AssertionError string

text \<open>An f-string field \<^verbatim>\<open>{v}\<close> formats the value with \<^verbatim>\<open>str(v)\<close>.\<close>

fun format_cell :: "cell \<Rightarrow> string" where
  "format_cell (Str s) = s"
| "format_cell NaN = ''nan''"
| "format_cell PyNone = ''None''"

text \<open>\<^verbatim>\<open>x != k\<close> on a float: \<^verbatim>\<open>nan\<close> differs from every number.\<close>

fun py_ne :: "number \<Rightarrow> rat \<Rightarrow> bool" where
  "py_ne (Num r) k = (r \<noteq> k)"
| "py_ne NotANumber k = True"


section \<open>The two regular expressions\<close>

text \<open>
  Both searches have the shape \<^verbatim>\<open>re.search('(.*?)(?=L)', s)\<close>: a lazy run of characters
  other than the line feed, followed by a lookahead \<open>L\<close>. \<open>lazy_group L s\<close> is the attempt
  anchored at the start of \<open>s\<close>: it returns the shortest run after which \<open>L\<close> matches, and
  gives up at a line feed or at the end. \<open>re_search L s\<close> tries the start positions from
  left to right, as \<^verbatim>\<open>re.search\<close> does, and returns the text of the first match
  (\<^verbatim>\<open>.group()\<close>), or \<open>None\<close> where Python's \<^verbatim>\<open>re.search\<close> returns \<^verbatim>\<open>None\<close>.
\<close>

definition line_feed :: char where
  "line_feed = CHR 0x0A"

fun lazy_group :: "(string \<Rightarrow> bool) \<Rightarrow> string \<Rightarrow> string option" where
  "lazy_group L [] = (if L [] then Some [] else None)"
| "lazy_group L (c # cs) =
     (if L (c # cs) then Some []
      else if c = line_feed then None
      else map_option ((#) c) (lazy_group L cs))"

fun re_search :: "(string \<Rightarrow> bool) \<Rightarrow> string \<Rightarrow> string option" where
  "re_search L [] = lazy_group L []"
| "re_search L (c # cs) =
     (case lazy_group L (c # cs) of
        Some m \<Rightarrow> Some m
      | None \<Rightarrow> re_search L cs)"

text \<open>The lookahead \<^verbatim>\<open>(?=\.)\<close>: the next character is a full stop.\<close>

fun at_full_stop :: "string \<Rightarrow> bool" where
  "at_full_stop [] = False"
| "at_full_stop (c # cs) = (c = CHR ''.'')"

text \<open>
  The lookahead \<^verbatim>\<open>(?=.sambamba_output.txt$)\<close>. Its two dots are not escaped, so each
  stands for any character other than the line feed; \<^verbatim>\<open>$\<close> holds at the end of the
  string and just before a line feed that ends the string.
\<close>

datatype atom = AnyChar | Lit char

fun match_atoms :: "atom list \<Rightarrow> string \<Rightarrow> string option" where
  "match_atoms [] s = Some s"
| "match_atoms (a # as) [] = None"
| "match_atoms (AnyChar # as) (c # cs) =
     (if c = line_feed then None else match_atoms as cs)"
| "match_atoms (Lit d # as) (c # cs) =
     (if c = d then match_atoms as cs else None)"

definition suffix_atoms :: "atom list" where
  "suffix_atoms =
     AnyChar # map Lit ''sambamba_output'' @ AnyChar # map Lit ''txt''"

definition at_end :: "string \<Rightarrow> bool" where
  "at_end s = (s = [] \<or> s = [line_feed])"

definition at_suffix :: "string \<Rightarrow> bool" where
  "at_suffix s =
     (case match_atoms suffix_atoms s of
        None \<Rightarrow> False
      | Some rest \<Rightarrow> at_end rest)"


section \<open>Report Loader: \<^verbatim>\<open>create_df\<close>\<close>

text \<open>
  A cell of the combined column as \<^verbatim>\<open>read_csv\<close> parses it: text, or a number when the
  field reads as one, \<^verbatim>\<open>nan\<close> included (a field such as \<^verbatim>\<open>NA\<close>). A column in which
  no cell is text has a numeric dtype.
\<close>

datatype parsed = TextField string | NumberField number

fun is_text :: "parsed \<Rightarrow> bool" where
  "is_text (TextField s) = True"
| "is_text (NumberField n) = False"

text \<open>
  A row of the report as \<^verbatim>\<open>read_csv\<close> returns it; the columns the program never reads
  are the record's extension.
\<close>

record raw_row =
  GeneSymbol_Accession :: parsed
  FullPosition :: cell
  percentage30 :: number

record coverage_row = raw_row +
  GeneSymbol :: cell
  Accession :: cell

text \<open>\<^verbatim>\<open>s.split(';', 1)\<close>: one part without the separator, else the text before the
  first separator and the text after it.\<close>

definition split_once :: "char \<Rightarrow> string \<Rightarrow> string list" where
  "split_once d s =
     (if d \<in> set s
      then [takeWhile (\<lambda>c. c \<noteq> d) s, tl (dropWhile (\<lambda>c. c \<noteq> d) s)]
      else [s])"

text \<open>
  The accessor \<^verbatim>\<open>.str\<close> raises \<^verbatim>\<open>AttributeError\<close> (``Can only use .str accessor
  with string values'') on a column that has cells and none of them text; the column of
  a report without rows has the dtype \<^verbatim>\<open>object\<close> and is accepted.
\<close>

definition str_accessor :: "parsed list \<Rightarrow> error + parsed list" where
  "str_accessor col =
     (if col \<noteq> [] \<and> \<not> list_ex is_text col then Inl AttributeError else Inr col)"

text \<open>
  \<^verbatim>\<open>.split(';', n=1, expand=True)\<close>: every text cell is split, a cell that is not text
  stays the one-element row \<^verbatim>\<open>[nan]\<close>; the frame has as many columns as the longest
  row, a row \<^verbatim>\<open>[nan]\<close> is \<^verbatim>\<open>nan\<close> in all of them, and a shorter row is padded with
  \<^verbatim>\<open>None\<close>.
\<close>

fun split_cell :: "parsed \<Rightarrow> cell list" where
  "split_cell (TextField s) = map Str (split_once CHR '';'' s)"
| "split_cell (NumberField n) = [NaN]"

definition max_len :: "'a list list \<Rightarrow> nat" where
  "max_len xss = foldr (\<lambda>xs n. max (length xs) n) xss 0"

definition expand_row :: "nat \<Rightarrow> cell list \<Rightarrow> cell list" where
  "expand_row n xs =
     (if xs = [NaN] then replicate n NaN
      else xs @ replicate (n - length xs) PyNone)"

definition str_split_expand :: "parsed list \<Rightarrow> nat \<times> cell list list" where
  "str_split_expand col =
     (let parts = map split_cell col; n = max_len parts
      in (n, map (expand_row n) parts))"

text \<open>
  Assigning the frame to the two new columns raises \<^verbatim>\<open>ValueError\<close> (``Columns must be
  same length as key'') unless it has exactly two columns. The prefix is searched
  afterwards; \<^verbatim>\<open>.group()\<close> on \<^verbatim>\<open>None\<close> raises \<^verbatim>\<open>AttributeError\<close>.
\<close>

definition add_columns :: "'a raw_row_scheme \<Rightarrow> cell list \<Rightarrow> 'a coverage_row_scheme" where
  "add_columns row parts =
     \<lparr>GeneSymbol_Accession = GeneSymbol_Accession row,
      FullPosition = FullPosition row, percentage30 = percentage30 row,
      GeneSymbol = parts ! 0, Accession = parts ! 1, \<dots> = raw_row.more row\<rparr>"

definition create_df ::
  "string \<Rightarrow> 'a raw_row_scheme list \<Rightarrow> error + (string \<times> 'a coverage_row_scheme list)" where
  "create_df input_file rows =
     (case str_accessor (map GeneSymbol_Accession rows) of
        Inl e \<Rightarrow> Inl e
      | Inr col \<Rightarrow>
          (case str_split_expand col of (n, parts) \<Rightarrow>
             if n \<noteq> 2 then Inl ValueError
             else
               (case re_search at_suffix input_file of
                  None \<Rightarrow> Inl AttributeError
                | Some output_prefix \<Rightarrow>
                    Inr (output_prefix, map2 add_columns rows parts))))"


section \<open>Issue Filter: \<^verbatim>\<open>find_coverage_issues\<close>\<close>

record issue =
  gene :: cell
  accession :: cell
  exon_position :: cell
  percent_x30 :: number

definition new_row :: "'a coverage_row_scheme \<Rightarrow> issue" where
  "new_row row =
     \<lparr>gene = GeneSymbol row, accession = Accession row,
      exon_position = FullPosition row, percent_x30 = percentage30 row\<rparr>"

text \<open>The loop over \<^verbatim>\<open>coverage_df.iterrows()\<close>; \<^verbatim>\<open>pd.concat\<close> appends the new row.\<close>

definition find_coverage_issues :: "'a coverage_row_scheme list \<Rightarrow> issue list" where
  "find_coverage_issues coverage_df =
     foldl (\<lambda>issues_df row.
              if py_ne (percentage30 row) 100 then issues_df @ [new_row row]
              else issues_df)
       [] coverage_df"


section \<open>Identifier Resolver: \<^verbatim>\<open>get_hgncs\<close>\<close>

text \<open>
  A row of the reference dump after \<^verbatim>\<open>hgnc_df.columns = [...]\<close>. The frame keeps the
  file's order and has the default index \<open>0, 1, 2, \<dots>\<close>.
\<close>

record hgnc_row =
  hgnc :: cell
  approved :: cell
  previous :: cell
  aliases :: cell
  refseq :: cell

record resolved_issue = issue +
  hgnc :: cell

text \<open>
  \<^verbatim>\<open>re.search('(.*?)(?=\.)', acc).group()\<close>: \<^verbatim>\<open>re.search\<close> raises \<^verbatim>\<open>TypeError\<close> on a
  value that is not text, and \<^verbatim>\<open>.group()\<close> raises \<^verbatim>\<open>AttributeError\<close> when nothing
  matched.
\<close>

fun acc_prefix :: "cell \<Rightarrow> error + string" where
  "acc_prefix (Str acc) =
     (case re_search at_full_stop acc of
        None \<Rightarrow> Inl AttributeError
      | Some p \<Rightarrow> Inr p)"
| "acc_prefix c = Inl TypeError"

text \<open>
  \<^verbatim>\<open>x in y\<close>: the substring test when both are text; \<^verbatim>\<open>TypeError\<close> when \<open>y\<close> is a float
  or \<^verbatim>\<open>None\<close> (not iterable) and when \<open>y\<close> is text and \<open>x\<close> is not.
\<close>

fun py_in :: "cell \<Rightarrow> cell \<Rightarrow> error + bool" where
  "py_in (Str x) (Str y) = Inr (sublist x y)"
| "py_in x y = Inl TypeError"

text \<open>\<^verbatim>\<open>a or b\<close> on truth values: \<open>b\<close> is not evaluated when \<open>a\<close> is true, so its
  error is not raised then.\<close>

fun py_or :: "error + bool \<Rightarrow> error + bool \<Rightarrow> error + bool" where
  "py_or (Inl e) b = Inl e"
| "py_or (Inr True) b = Inr True"
| "py_or (Inr False) b = b"

definition symbol_found :: "cell \<Rightarrow> hgnc_row \<Rightarrow> error + bool" where
  "symbol_found gene_symbol hgnc_row =
     py_or (py_or (py_in gene_symbol (approved hgnc_row))
                  (py_in gene_symbol (previous hgnc_row)))
       (py_in gene_symbol (aliases hgnc_row))"

text \<open>\<^verbatim>\<open>hgnc_df.index[hgnc_df['refseq'] == acc_prefix]\<close>: the labels of the rows whose
  \<^verbatim>\<open>refseq\<close> cell is the text \<open>acc_prefix\<close>, in the order of the frame.\<close>

definition hgnc_index :: "hgnc_row list \<Rightarrow> string \<Rightarrow> nat list" where
  "hgnc_index hgnc_df p =
     filter (\<lambda>i. refseq (hgnc_df ! i) = Str p) [0 ..< length hgnc_df]"

text \<open>The body of the \<^verbatim>\<open>try\<close> statement; \<^verbatim>\<open>hgnc_idx[0]\<close> raises \<^verbatim>\<open>IndexError\<close> on an
  empty index.\<close>

definition try_body :: "hgnc_row list \<Rightarrow> cell \<Rightarrow> cell \<Rightarrow> string \<Rightarrow> error + cell" where
  "try_body hgnc_df gene_symbol acc p =
     (case hgnc_index hgnc_df p of
        [] \<Rightarrow> Inl IndexError
      | i # _ \<Rightarrow>
          (let hgnc_row = hgnc_df ! i in
           case symbol_found gene_symbol hgnc_row of
             Inl e \<Rightarrow> Inl e
           | Inr False \<Rightarrow>
               Inl (AssertionError
                 (format_cell acc @ '' wrongly matched to ''
                    @ format_cell (hgnc_row.hgnc hgnc_row)))
           | Inr True \<Rightarrow> Inr (hgnc_row.hgnc hgnc_row)))"

text \<open>One pass of the loop body: the value appended to \<^verbatim>\<open>hgncs\<close>, or the exception
  that leaves the function. Only \<^verbatim>\<open>IndexError\<close> is caught.\<close>

definition resolve :: "hgnc_row list \<Rightarrow> 'a issue_scheme \<Rightarrow> error + cell" where
  "resolve hgnc_df row =
     (case acc_prefix (accession row) of
        Inl e \<Rightarrow> Inl e
      | Inr p \<Rightarrow>
          (case try_body hgnc_df (gene row) (accession row) p of
             Inl IndexError \<Rightarrow> Inr (Str ''-'')
           | Inl e \<Rightarrow> Inl e
           | Inr h \<Rightarrow> Inr h))"

fun hgnc_loop :: "hgnc_row list \<Rightarrow> 'a issue_scheme list \<Rightarrow> cell list \<Rightarrow> error + cell list" where
  "hgnc_loop hgnc_df [] hgncs = Inr hgncs"
| "hgnc_loop hgnc_df (row # rows) hgncs =
     (case resolve hgnc_df row of
        Inl e \<Rightarrow> Inl e
      | Inr h \<Rightarrow> hgnc_loop hgnc_df rows (hgncs @ [h]))"

definition set_hgnc :: "issue \<Rightarrow> cell \<Rightarrow> resolved_issue" where
  "set_hgnc row h = issue.extend row \<lparr>hgnc = h\<rparr>"

definition get_hgncs :: "hgnc_row list \<Rightarrow> issue list \<Rightarrow> error + resolved_issue list" where
  "get_hgncs hgnc_df issues_df =
     (case hgnc_loop hgnc_df issues_df [] of
        Inl e \<Rightarrow> Inl e
      | Inr hgncs \<Rightarrow> Inr (map2 set_hgnc issues_df hgncs))"


section \<open>Gene Deduplicator: \<^verbatim>\<open>unique_gene_list\<close>\<close>

definition tab :: char where
  "tab = CHR 0x09"

definition row_identifier :: "resolved_issue \<Rightarrow> string" where
  "row_identifier row =
     format_cell (gene row) @ [tab] @ format_cell (accession row) @ [tab]
       @ format_cell (hgnc row)"

definition unique_gene_list :: "resolved_issue list \<Rightarrow> string list" where
  "unique_gene_list issues_df =
     foldl (\<lambda>problem_genes row.
              if row_identifier row \<notin> set problem_genes
              then problem_genes @ [row_identifier row]
              else problem_genes)
       [] issues_df"


section \<open>Output Writer: \<^verbatim>\<open>create_outputs\<close>\<close>

text \<open>
  The files written are kept in a map from file name to content. A workbook is the grid
  of its first sheet: \<^verbatim>\<open>to_excel(..., index=False)\<close> writes the column names as the first
  line and then one line per row of the frame, without the index; a missing value is
  written as an empty cell.
\<close>

datatype sheet_cell = Text string | Number rat | Blank

datatype file_content = TextFile string | Workbook "sheet_cell list list"

fun text_cell :: "cell \<Rightarrow> sheet_cell" where
  "text_cell (Str s) = Text s"
| "text_cell c = Blank"

fun number_cell :: "number \<Rightarrow> sheet_cell" where
  "number_cell (Num r) = Number r"
| "number_cell NotANumber = Blank"

definition issues_columns :: "string list" where
  "issues_columns = [''gene'', ''accession'', ''exon_position'', ''percent_x30'', ''hgnc'']"

definition sheet_row :: "resolved_issue \<Rightarrow> sheet_cell list" where
  "sheet_row row =
     [text_cell (gene row), text_cell (accession row), text_cell (exon_position row),
      number_cell (percent_x30 row), text_cell (hgnc row)]"

definition to_excel :: "resolved_issue list \<Rightarrow> sheet_cell list list" where
  "to_excel issues_df = map Text issues_columns # map sheet_row issues_df"

text \<open>\<^verbatim>\<open>sep.join(xs)\<close>.\<close>

fun join :: "string \<Rightarrow> string list \<Rightarrow> string" where
  "join sep [] = []"
| "join sep [x] = x"
| "join sep (x # y # ys) = x @ sep @ join sep (y # ys)"

definition gene_text :: "string \<Rightarrow> string list \<Rightarrow> string" where
  "gene_text output_prefix problem_genes =
     (''Sample: '' @ output_prefix @ [line_feed, line_feed])
       @ (''Genes with <100% coverage at 30x:'' @ [line_feed])
       @ join [line_feed] problem_genes"

definition create_outputs ::
  "string \<Rightarrow> resolved_issue list \<Rightarrow> string list \<Rightarrow> (string \<rightharpoonup> file_content) \<Rightarrow> (string \<rightharpoonup> file_content)" where
  "create_outputs output_prefix issues_df problem_genes fs =
     (let text_file = output_prefix @ ''.low_coverage_genes.txt'';
          xlsx_file = output_prefix @ ''.low_coverage_gene_exons.xlsx''
      in (fs(text_file \<mapsto> TextFile (gene_text output_prefix problem_genes)))
           (xlsx_file \<mapsto> Workbook (to_excel issues_df)))"


section \<open>The pipeline: \<^verbatim>\<open>main\<close>\<close>

definition main ::
  "string \<Rightarrow> 'a raw_row_scheme list \<Rightarrow> hgnc_row list \<Rightarrow> (string \<rightharpoonup> file_content)
     \<Rightarrow> error + (string \<rightharpoonup> file_content)" where
  "main input_file report hgnc_dump fs =
     (case create_df input_file report of
        Inl e \<Rightarrow> Inl e
      | Inr (output_prefix, coverage_df) \<Rightarrow>
          (case get_hgncs hgnc_dump (find_coverage_issues coverage_df) of
             Inl e \<Rightarrow> Inl e
           | Inr issues_df \<Rightarrow>
               Inr (create_outputs output_prefix issues_df
                      (unique_gene_list issues_df) fs)))"


section \<open>Reference behaviour and sample data\<close>

text \<open>
  The list of first occurrences, as the specification words the deduplication: an
  element is kept where it first appears and every later copy of it is dropped.
\<close>

fun first_occurrences :: "'a list \<Rightarrow> 'a list" where
  "first_occurrences [] = []"
| "first_occurrences (x # xs) = x # first_occurrences (removeAll x xs)"

text \<open>
  The row \<^verbatim>\<open>create_df\<close> builds from a row of the report once the split has two
  columns.
\<close>

definition split_columns :: "'a raw_row_scheme \<Rightarrow> 'a coverage_row_scheme" where
  "split_columns r = add_columns r (expand_row 2 (split_cell (GeneSymbol_Accession r)))"

text \<open>Rows and reference entries used to run the functions on concrete inputs.\<close>

definition report_row :: "string \<Rightarrow> string \<Rightarrow> string \<Rightarrow> rat \<Rightarrow> coverage_row" where
  "report_row g a pos pct =
     \<lparr>GeneSymbol_Accession = TextField (g @ '';'' @ a), FullPosition = Str pos,
      percentage30 = Num pct, GeneSymbol = Str g, Accession = Str a\<rparr>"

definition raw_report_row :: "string \<Rightarrow> string \<Rightarrow> rat \<Rightarrow> raw_row" where
  "raw_report_row ga pos pct =
     \<lparr>GeneSymbol_Accession = TextField ga, FullPosition = Str pos,
      percentage30 = Num pct\<rparr>"


definition flagged :: "string \<Rightarrow> string \<Rightarrow> issue" where
  "flagged g a =
     \<lparr>gene = Str g, accession = Str a, exon_position = Str ''chr17:41196312-41197819'',
      percent_x30 = Num 95\<rparr>"

text \<open>An entry as the HGNC download has it for most genes: no previous symbol.\<close>

definition brca1_entry :: hgnc_row where
  "brca1_entry =
     \<lparr>hgnc_row.hgnc = Str ''HGNC:1100'', approved = Str ''BRCA1'', previous = NaN,
      aliases = Str ''RNF53, FANCS'', refseq = Str ''NM_007294''\<rparr>"

definition brca1_text_entry :: hgnc_row where
  "brca1_text_entry =
     \<lparr>hgnc_row.hgnc = Str ''HGNC:1100'', approved = Str ''BRCA1'', previous = Str ''BRCA1L'',
      aliases = Str ''FANCS'', refseq = Str ''NM_007294''\<rparr>"

definition duplicate_entry :: hgnc_row where
  "duplicate_entry =
     \<lparr>hgnc_row.hgnc = Str ''HGNC:9999'', approved = Str ''BRCA1'', previous = Str ''BRCA1L'',
      aliases = Str ''FANCS'', refseq = Str ''NM_007294''\<rparr>"

definition other_entry :: hgnc_row where
  "other_entry =
     \<lparr>hgnc_row.hgnc = Str ''HGNC:5'', approved = Str ''A1BG'', previous = NaN,
      aliases = NaN, refseq = NaN\<rparr>"

definition sample_report :: "raw_row list" where
  "sample_report =
     [raw_report_row ''BRCA1;NM_007294.4'' ''chr17:41196312-41197819'' 95,
      raw_report_row ''XYZ1;NM_999999.1'' ''chr1:100-200'' 100,
      raw_report_row ''ABC2;NM_000111.2'' ''chr2:300-400'' 80]"

definition issue_brca1 :: issue where
  "issue_brca1 =
     \<lparr>gene = Str ''BRCA1'', accession = Str ''NM_007294.4'',
      exon_position = Str ''chr17:41196312-41197819'', percent_x30 = Num 95\<rparr>"

definition issue_abc2 :: issue where
  "issue_abc2 =
     \<lparr>gene = Str ''ABC2'', accession = Str ''NM_000111.2'',
      exon_position = Str ''chr2:300-400'', percent_x30 = Num 80\<rparr>"



section \<open>Properties of the Issue Filter\<close>

lemma py_ne_conv: "py_ne x k \<longleftrightarrow> x \<noteq> Num k"
  by (cases x) simp_all

lemma issues_loop_acc:
  "foldl (\<lambda>issues_df row.
            if py_ne (percentage30 row) 100 then issues_df @ [new_row row]
            else issues_df) acc coverage_df
   = acc @ map new_row (filter (\<lambda>row. percentage30 row \<noteq> Num 100) coverage_df)"
  by (induction coverage_df arbitrary: acc) (simp_all add: py_ne_conv)

lemma find_coverage_issues_eq:
  "find_coverage_issues coverage_df
   = map new_row (filter (\<lambda>row. percentage30 row \<noteq> Num 100) coverage_df)"
  by (simp add: find_coverage_issues_def issues_loop_acc)

text \<open>
  C4. The output of \<^verbatim>\<open>find_coverage_issues\<close> is, in the order of the input, the
  projection of exactly the rows whose \<^verbatim>\<open>percentage30\<close> is not 100: no output row has
  percentage 100, the number of output rows is the number of input rows with a
  percentage other than 100, and a report whose rows are all at 100 gives the empty
  table.
\<close>

theorem find_coverage_issues_exact:
  "find_coverage_issues coverage_df
     = map new_row (filter (\<lambda>row. percentage30 row \<noteq> Num 100) coverage_df)
   \<and> (\<forall>i \<in> set (find_coverage_issues coverage_df). percent_x30 i \<noteq> Num 100)
   \<and> length (find_coverage_issues coverage_df)
       = length (filter (\<lambda>row. percentage30 row \<noteq> Num 100) coverage_df)
   \<and> ((\<forall>row \<in> set coverage_df. percentage30 row = Num 100)
        \<longrightarrow> find_coverage_issues coverage_df = [])"
proof -
  have "\<forall>i \<in> set (find_coverage_issues coverage_df). percent_x30 i \<noteq> Num 100"
    by (auto simp: find_coverage_issues_eq new_row_def)
  moreover have "(\<forall>row \<in> set coverage_df. percentage30 row = Num 100)
        \<longrightarrow> find_coverage_issues coverage_df = []"
    by (simp add: find_coverage_issues_eq filter_empty_conv)
  ultimately show ?thesis
    by (simp add: find_coverage_issues_eq)
qed

theorem find_coverage_issues_exact_witness:
  "find_coverage_issues
     [report_row ''BRCA1'' ''NM_007294.4'' ''chr17:41196312-41197819'' 95,
      report_row ''XYZ1'' ''NM_999999.1'' ''chr1:100-200'' 100,
      report_row ''ABC2'' ''NM_000111.2'' ''chr2:300-400'' 80]
   = [\<lparr>gene = Str ''BRCA1'', accession = Str ''NM_007294.4'',
       exon_position = Str ''chr17:41196312-41197819'', percent_x30 = Num 95\<rparr>,
      \<lparr>gene = Str ''ABC2'', accession = Str ''NM_000111.2'',
       exon_position = Str ''chr2:300-400'', percent_x30 = Num 80\<rparr>]
   \<and> length (find_coverage_issues
        [report_row ''BRCA1'' ''NM_007294.4'' ''chr17:41196312-41197819'' 95,
         report_row ''XYZ1'' ''NM_999999.1'' ''chr1:100-200'' 100,
         report_row ''ABC2'' ''NM_000111.2'' ''chr2:300-400'' 80]) = 2
   \<and> find_coverage_issues [report_row ''XYZ1'' ''NM_999999.1'' ''chr1:100-200'' 100] = []"
  using find_coverage_issues_exact
    [of "[report_row ''BRCA1'' ''NM_007294.4'' ''chr17:41196312-41197819'' 95,
          report_row ''XYZ1'' ''NM_999999.1'' ''chr1:100-200'' 100,
          report_row ''ABC2'' ''NM_000111.2'' ''chr2:300-400'' 80]"]
    find_coverage_issues_exact [of "[report_row ''XYZ1'' ''NM_999999.1'' ''chr1:100-200'' 100]"]
  by (simp add: report_row_def new_row_def)


section \<open>Properties of the Gene Deduplicator\<close>

lemma set_first_occurrences: "set (first_occurrences xs) = set xs"
  by (induction xs rule: first_occurrences.induct) auto

lemma distinct_first_occurrences: "distinct (first_occurrences xs)"
  by (induction xs rule: first_occurrences.induct) (auto simp: set_first_occurrences)

lemma removeAll_filter_notin:
  "removeAll i (filter (\<lambda>y. y \<notin> set acc) ys) = filter (\<lambda>y. y \<notin> set (acc @ [i])) ys"
  by (induction ys) auto

lemma genes_loop_acc:
  "foldl (\<lambda>problem_genes row.
            if f row \<notin> set problem_genes then problem_genes @ [f row]
            else problem_genes) acc rows
   = acc @ first_occurrences (filter (\<lambda>y. y \<notin> set acc) (map f rows))"
proof (induction rows arbitrary: acc)
  case Nil
  then show ?case by simp
next
  case (Cons row rows)
  show ?case
  proof (cases "f row \<in> set acc")
    case True
    then show ?thesis using Cons.IH [of acc] by simp
  next
    case False
    then show ?thesis
      using Cons.IH [of "acc @ [f row]"] removeAll_filter_notin [of "f row" acc "map f rows"]
      by simp
  qed
qed

lemma unique_gene_list_eq:
  "unique_gene_list issues_df = first_occurrences (map row_identifier issues_df)"
  by (simp add: unique_gene_list_def genes_loop_acc)

lemma unique_gene_list_snoc:
  "unique_gene_list (issues_df @ [row])
   = (if row_identifier row \<in> set (unique_gene_list issues_df)
      then unique_gene_list issues_df
      else unique_gene_list issues_df @ [row_identifier row])"
  by (simp add: unique_gene_list_def)

text \<open>
  C5. \<^verbatim>\<open>unique_gene_list\<close> returns a list without repetitions that holds exactly the
  display strings of the rows, each at its first occurrence; a further row adds its
  string only when the string has not been emitted, and the string is the gene, the
  accession and the identifier joined by tabs.
\<close>

theorem unique_gene_list_dedup:
  "distinct (unique_gene_list issues_df)
   \<and> set (unique_gene_list issues_df) = row_identifier ` set issues_df
   \<and> unique_gene_list issues_df = first_occurrences (map row_identifier issues_df)
   \<and> unique_gene_list (issues_df @ [row])
       = (if row_identifier row \<in> set (unique_gene_list issues_df)
          then unique_gene_list issues_df
          else unique_gene_list issues_df @ [row_identifier row])
   \<and> row_identifier row
       = join [tab] [format_cell (gene row), format_cell (accession row),
                     format_cell (resolved_issue.hgnc row)]"
  by (simp add: unique_gene_list_snoc)
     (simp add: unique_gene_list_eq distinct_first_occurrences set_first_occurrences
        row_identifier_def)


theorem unique_gene_list_dedup_witness:
  "unique_gene_list
     [set_hgnc (flagged ''BRCA1'' ''NM_007294.4'') (Str ''HGNC:1100''),
      set_hgnc (flagged ''ABC2'' ''NM_000111.2'') (Str ''-''),
      set_hgnc (flagged ''BRCA1'' ''NM_007294.4'') (Str ''HGNC:1100'')]
   = [''BRCA1'' @ [tab] @ ''NM_007294.4'' @ [tab] @ ''HGNC:1100'',
      ''ABC2'' @ [tab] @ ''NM_000111.2'' @ [tab] @ ''-'']"
  using unique_gene_list_dedup
    [of "[set_hgnc (flagged ''BRCA1'' ''NM_007294.4'') (Str ''HGNC:1100''),
          set_hgnc (flagged ''ABC2'' ''NM_000111.2'') (Str ''-''),
          set_hgnc (flagged ''BRCA1'' ''NM_007294.4'') (Str ''HGNC:1100'')]"]
  by (simp add: row_identifier_def set_hgnc_def flagged_def issue.defs tab_def)


section \<open>Properties of the regular expression searches\<close>


lemma lazy_group_shortest:
  "L s \<Longrightarrow> line_feed \<notin> set p \<Longrightarrow> (\<forall>q r. p = q @ r \<longrightarrow> r \<noteq> [] \<longrightarrow> \<not> L (r @ s))
   \<Longrightarrow> lazy_group L (p @ s) = Some p"
proof (induction p)
  case Nil
  then show ?case by (cases s) simp_all
next
  case (Cons c p)
  have "\<not> L (c # p @ s)" using Cons.prems(3) [rule_format, of "[]" "c # p"] by simp
  moreover have "\<forall>q r. p = q @ r \<longrightarrow> r \<noteq> [] \<longrightarrow> \<not> L (r @ s)"
  proof (intro allI impI)
    fix q r assume "p = q @ r" "r \<noteq> []"
    then show "\<not> L (r @ s)" using Cons.prems(3) [rule_format, of "c # q" r] by simp
  qed
  ultimately show ?case using Cons.IH Cons.prems(1,2) by auto
qed

lemma re_search_first:
  "lazy_group L s = Some m \<Longrightarrow> re_search L s = Some m"
  by (cases s) simp_all

lemma re_search_shortest:
  "L s \<Longrightarrow> line_feed \<notin> set p \<Longrightarrow> (\<forall>q r. p = q @ r \<longrightarrow> r \<noteq> [] \<longrightarrow> \<not> L (r @ s))
   \<Longrightarrow> re_search L (p @ s) = Some p"
  by (rule re_search_first) (rule lazy_group_shortest)

lemma lazy_group_no_match:
  "(\<forall>n \<le> length s. \<not> L (drop n s)) \<Longrightarrow> lazy_group L s = None"
proof (induction s)
  case Nil
  then show ?case by simp
next
  case (Cons c s)
  have "\<not> L (c # s)" using Cons.prems [rule_format, of 0] by simp
  moreover have "\<forall>n \<le> length s. \<not> L (drop n s)"
    using Cons.prems by (metis Suc_le_mono drop_Suc_Cons length_Cons)
  ultimately show ?case using Cons.IH by simp
qed

lemma re_search_no_match:
  "(\<forall>n \<le> length s. \<not> L (drop n s)) \<Longrightarrow> re_search L s = None"
proof (induction s)
  case Nil
  then show ?case by simp
next
  case (Cons c s)
  have "\<forall>n \<le> length s. \<not> L (drop n s)"
    using Cons.prems by (metis Suc_le_mono drop_Suc_Cons length_Cons)
  then show ?case using Cons.IH lazy_group_no_match [OF Cons.prems] by simp
qed

lemma at_full_stop_iff: "at_full_stop s \<longleftrightarrow> (\<exists>r. s = CHR ''.'' # r)"
  by (cases s) auto

lemma full_stop_not_in:
  "CHR ''.'' \<notin> set p \<Longrightarrow> p = q @ r \<Longrightarrow> r \<noteq> [] \<Longrightarrow> \<not> at_full_stop (r @ s)"
  by (cases r) auto

lemma acc_prefix_text:
  assumes "CHR ''.'' \<notin> set p" "line_feed \<notin> set p"
  shows "acc_prefix (Str (p @ CHR ''.'' # rest)) = Inr p"
proof -
  have "re_search at_full_stop (p @ CHR ''.'' # rest) = Some p"
    using assms by (intro re_search_shortest) (auto simp: full_stop_not_in)
  then show ?thesis by simp
qed

lemma acc_prefix_no_full_stop:
  assumes "CHR ''.'' \<notin> set acc"
  shows "acc_prefix (Str acc) = Inl AttributeError"
proof -
  have "\<forall>n \<le> length acc. \<not> at_full_stop (drop n acc)"
  proof (intro allI impI)
    fix n assume "n \<le> length acc"
    show "\<not> at_full_stop (drop n acc)"
    proof
      assume "at_full_stop (drop n acc)"
      then obtain r where "drop n acc = CHR ''.'' # r" by (auto simp: at_full_stop_iff)
      then have "CHR ''.'' \<in> set (drop n acc)" by simp
      then show False using assms by (meson in_set_dropD)
    qed
  qed
  then show ?thesis by (simp add: re_search_no_match)
qed

section \<open>Properties of the Identifier Resolver\<close>

lemma hgnc_index_none:
  "(\<forall>x \<in> set hgnc_df. refseq x \<noteq> Str p) \<Longrightarrow> hgnc_index hgnc_df p = []"
  by (simp add: hgnc_index_def filter_empty_conv)

lemma hgnc_index_first:
  assumes "\<forall>x \<in> set pre. refseq x \<noteq> Str p" "refseq e = Str p"
  shows "\<exists>is. hgnc_index (pre @ e # post) p = length pre # is"
proof -
  have "[0 ..< length (pre @ e # post)]
      = [0 ..< length pre] @ [length pre ..< length pre + Suc (length post)]"
    using upt_add_eq_append [of 0 "length pre" "Suc (length post)"] by simp
  also have "[length pre ..< length pre + Suc (length post)]
      = length pre # [Suc (length pre) ..< length (pre @ e # post)]"
    by (simp add: upt_conv_Cons del: upt_Suc)
  finally have split: "[0 ..< length (pre @ e # post)]
      = [0 ..< length pre] @ length pre # [Suc (length pre) ..< length (pre @ e # post)]" .
  have "filter (\<lambda>i. refseq ((pre @ e # post) ! i) = Str p) [0 ..< length pre] = []"
    using assms(1) by (simp add: filter_empty_conv nth_append)
  then show ?thesis
    using assms(2) unfolding hgnc_index_def split by simp
qed

lemma try_body_none:
  "(\<forall>x \<in> set hgnc_df. refseq x \<noteq> Str p) \<Longrightarrow> try_body hgnc_df g acc p = Inl IndexError"
  by (simp add: try_body_def hgnc_index_none)

lemma try_body_first:
  assumes "\<forall>x \<in> set pre. refseq x \<noteq> Str p" "refseq e = Str p"
  shows "try_body (pre @ e # post) g acc p =
     (case symbol_found g e of
        Inl err \<Rightarrow> Inl err
      | Inr False \<Rightarrow>
          Inl (AssertionError
            (format_cell acc @ '' wrongly matched to '' @ format_cell (hgnc_row.hgnc e)))
      | Inr True \<Rightarrow> Inr (hgnc_row.hgnc e))"
proof -
  obtain "is" where "hgnc_index (pre @ e # post) p = length pre # is"
    using hgnc_index_first [OF assms] by blast
  then show ?thesis by (simp add: try_body_def)
qed

lemma symbol_found_not_IndexError: "symbol_found g e \<noteq> Inl IndexError"
proof -
  have a: "\<And>x y. py_in x y \<noteq> Inl IndexError"
    by (metis Inl_Inr_False error.distinct(15) py_in.elims sum.inject(1))
  have b: "\<And>u v. u \<noteq> Inl IndexError \<Longrightarrow> v \<noteq> Inl IndexError \<Longrightarrow> py_or u v \<noteq> Inl IndexError"
    by (metis py_or.elims)
  show ?thesis unfolding symbol_found_def by (intro b a)
qed

lemma hgnc_loop_acc:
  "hgnc_loop hgnc_df rows acc =
     (case hgnc_loop hgnc_df rows [] of Inl e \<Rightarrow> Inl e | Inr hs \<Rightarrow> Inr (acc @ hs))"
proof (induction rows arbitrary: acc)
  case Nil
  then show ?case by simp
next
  case (Cons row rows)
  show ?case
  proof (cases "resolve hgnc_df row")
    case (Inl e)
    then show ?thesis by simp
  next
    case (Inr h)
    then show ?thesis
      using Cons.IH [of "acc @ [h]"] Cons.IH [of "[h]"]
      by (simp split: sum.splits)
  qed
qed

lemma get_hgncs_Nil: "get_hgncs hgnc_df [] = Inr []"
  by (simp add: get_hgncs_def)

lemma get_hgncs_Cons:
  "get_hgncs hgnc_df (row # rows) =
     (case resolve hgnc_df row of
        Inl e \<Rightarrow> Inl e
      | Inr h \<Rightarrow>
          (case get_hgncs hgnc_df rows of
             Inl e \<Rightarrow> Inl e
           | Inr out \<Rightarrow> Inr (set_hgnc row h # out)))"
proof (cases "resolve hgnc_df row")
  case (Inl e)
  then show ?thesis by (simp add: get_hgncs_def)
next
  case (Inr h)
  then show ?thesis
    using hgnc_loop_acc [of hgnc_df rows "[h]"]
    by (simp add: get_hgncs_def split: sum.splits)
qed

lemma get_hgncs_rows:
  "get_hgncs hgnc_df issues_df = Inr out \<Longrightarrow>
     length out = length issues_df
     \<and> map issue.truncate out = issues_df
     \<and> list_all2 (\<lambda>row r. resolve hgnc_df row = Inr (resolved_issue.hgnc r)) issues_df out"
proof (induction issues_df arbitrary: out)
  case Nil
  then show ?case by (simp add: get_hgncs_Nil)
next
  case (Cons row rows)
  from Cons.prems obtain h out' where
    h: "resolve hgnc_df row = Inr h" and out': "get_hgncs hgnc_df rows = Inr out'"
    and out: "out = set_hgnc row h # out'"
    by (auto simp: get_hgncs_Cons split: sum.splits)
  have "issue.truncate (set_hgnc row h) = row" "resolved_issue.hgnc (set_hgnc row h) = h"
    by (simp_all add: set_hgnc_def issue.defs)
  then show ?case using Cons.IH [OF out'] h out by simp
qed

lemma get_hgncs_aborts:
  "row \<in> set issues_df \<Longrightarrow> resolve hgnc_df row = Inl e \<Longrightarrow> \<exists>e'. get_hgncs hgnc_df issues_df = Inl e'"
proof (induction issues_df)
  case Nil
  then show ?case by simp
next
  case (Cons r rows)
  then show ?case
    by (cases "r = row") (auto simp: get_hgncs_Cons split: sum.splits)
qed

lemma py_or_Inr: "py_or (Inr a) (Inr b) = Inr (a \<or> b)"
  by (cases a) simp_all


section \<open>The claims about the Identifier Resolver\<close>

lemma hgnc_index_single: "hgnc_index [e] p = (if refseq e = Str p then [0] else [])"
  by (simp add: hgnc_index_def)

lemma resolve_text_fields:
  assumes "acc_prefix (accession row) = Inr p"
    and "\<forall>x \<in> set pre. refseq x \<noteq> Str p" and "refseq e = Str p"
    and "gene row = Str g"
    and "approved e = Str a" and "previous e = Str b" and "aliases e = Str c"
  shows "resolve (pre @ e # post) row =
     (if sublist g a \<or> sublist g b \<or> sublist g c then Inr (hgnc_row.hgnc e)
      else Inl (AssertionError
             (format_cell (accession row) @ '' wrongly matched to ''
                @ format_cell (hgnc_row.hgnc e))))"
  using assms(1,4-7) try_body_first [OF assms(2,3), of post "gene row" "accession row"]
  by (simp add: resolve_def symbol_found_def py_or_Inr)

lemma resolve_miss:
  assumes "acc_prefix (accession row) = Inr p"
    and "\<forall>x \<in> set hgnc_df. refseq x \<noteq> Str p"
  shows "resolve hgnc_df row = Inr (Str ''-'')"
  using assms(1) try_body_none [OF assms(2)] by (simp add: resolve_def)

lemma acc_prefix_flagged_brca1:
  "acc_prefix (accession (flagged g ''NM_007294.4'')) = Inr ''NM_007294''"
  by (simp add: flagged_def line_feed_def)

lemma acc_prefix_flagged_abc2:
  "acc_prefix (accession (flagged g ''NM_000111.2'')) = Inr ''NM_000111''"
  by (simp add: flagged_def line_feed_def)

lemma sample_resolve_brca1:
  "resolve [other_entry, brca1_text_entry] (flagged ''BRCA1'' ''NM_007294.4'')
   = Inr (Str ''HGNC:1100'')"
  using resolve_text_fields [of "flagged ''BRCA1'' ''NM_007294.4''" "''NM_007294''"
      "[other_entry]" brca1_text_entry "''BRCA1''" "''BRCA1''" "''BRCA1L''" "''FANCS''" "[]"]
    acc_prefix_flagged_brca1 [of "''BRCA1''"]
  by (simp add: other_entry_def brca1_text_entry_def flagged_def del: acc_prefix.simps)

lemma sample_resolve_abc2:
  "resolve [other_entry, brca1_text_entry] (flagged ''ABC2'' ''NM_000111.2'') = Inr (Str ''-'')"
  by (rule resolve_miss [OF acc_prefix_flagged_abc2])
     (simp add: other_entry_def brca1_text_entry_def)

lemma sample_get_hgncs:
  "get_hgncs [other_entry, brca1_text_entry]
        [flagged ''ABC2'' ''NM_000111.2'', flagged ''BRCA1'' ''NM_007294.4'']
      = Inr [set_hgnc (flagged ''ABC2'' ''NM_000111.2'') (Str ''-''),
             set_hgnc (flagged ''BRCA1'' ''NM_007294.4'') (Str ''HGNC:1100'')]"
  by (simp only: get_hgncs_Cons get_hgncs_Nil sample_resolve_brca1 sample_resolve_abc2
        sum.case)

lemma resolve_no_full_stop:
  "accession row = Str acc \<Longrightarrow> CHR ''.'' \<notin> set acc \<Longrightarrow> resolve hgnc_df row = Inl AttributeError"
  by (simp add: resolve_def acc_prefix_no_full_stop del: acc_prefix.simps)

text \<open>
  When every symbol field of the first matching entry is text, \<open>resolve_text_fields\<close>
  above gives the whole behaviour: the entry's identifier when the gene symbol is a
  substring of one of the three fields, and otherwise the assertion's message naming the
  accession and the identifier. The next two theorems run the resolver on an entry that
  has no previous symbol, which \<^verbatim>\<open>read_csv\<close> reads as \<^verbatim>\<open>nan\<close>.

  C1. A record whose gene symbol is in none of the matching entry's symbol fields must
  end in the match-integrity error that names the accession and the identifier. Here
  the symbol \<^verbatim>\<open>XYZ1\<close> is in no field of the entry, and the run ends in
  \<^verbatim>\<open>TypeError\<close> instead: \<^verbatim>\<open>gene in nan\<close> is evaluated before the assertion can fail.
\<close>

theorem resolve_unmatched_symbol_type_error:
  "resolve [brca1_entry] (flagged ''XYZ1'' ''NM_007294.4'') = Inl TypeError"
  by (simp add: resolve_def try_body_def hgnc_index_single symbol_found_def brca1_entry_def
        flagged_def line_feed_def sublist_Cons_right)

text \<open>
  C9. A gene symbol that is a substring of the alias field passes the validation. Here
  \<^verbatim>\<open>FANCS\<close> is a substring of the alias field, and the run ends in \<^verbatim>\<open>TypeError\<close>:
  the symbol is not in the approved symbol, and the test on the missing previous symbols
  raises before the aliases are read.
\<close>

theorem resolve_alias_substring_type_error:
  "sublist ''FANCS'' ''RNF53, FANCS''
   \<and> resolve [brca1_entry] (flagged ''FANCS'' ''NM_007294.4'') = Inl TypeError"
  by (simp add: resolve_def try_body_def hgnc_index_single symbol_found_def brca1_entry_def
        flagged_def line_feed_def sublist_Cons_right)

text \<open>
  C2. The resolver takes the first entry, in the order of the reference table, whose
  \<^verbatim>\<open>refseq\<close> cell is the prefix extracted from the accession: with no such entry
  before \<open>e\<close>, the index selected is the position of \<open>e\<close> and the outcome is the
  validation of the gene symbol against \<open>e\<close> alone, whatever entries follow.
\<close>

theorem resolve_first_match:
  assumes "acc_prefix (accession row) = Inr p"
    and "\<forall>x \<in> set pre. refseq x \<noteq> Str p" and "refseq e = Str p"
  shows "(\<exists>is. hgnc_index (pre @ e # post) p = length pre # is)
    \<and> resolve (pre @ e # post) row =
        (case symbol_found (gene row) e of
           Inl err \<Rightarrow> Inl err
         | Inr False \<Rightarrow>
             Inl (AssertionError
               (format_cell (accession row) @ '' wrongly matched to ''
                  @ format_cell (hgnc_row.hgnc e)))
         | Inr True \<Rightarrow> Inr (hgnc_row.hgnc e))"
proof -
  have "symbol_found (gene row) e \<noteq> Inl IndexError" by (rule symbol_found_not_IndexError)
  then have "resolve (pre @ e # post) row =
        (case symbol_found (gene row) e of
           Inl err \<Rightarrow> Inl err
         | Inr False \<Rightarrow>
             Inl (AssertionError
               (format_cell (accession row) @ '' wrongly matched to ''
                  @ format_cell (hgnc_row.hgnc e)))
         | Inr True \<Rightarrow> Inr (hgnc_row.hgnc e))"
    using assms(1) try_body_first [OF assms(2,3), of post "gene row" "accession row"]
    by (auto simp: resolve_def split: sum.splits error.splits bool.splits)
  then show ?thesis using hgnc_index_first [OF assms(2,3)] by simp
qed

theorem resolve_first_match_witness:
  "resolve [other_entry, brca1_text_entry, duplicate_entry] (flagged ''BRCA1'' ''NM_007294.4'')
     = Inr (Str ''HGNC:1100'')
   \<and> (\<exists>is. hgnc_index [other_entry, brca1_text_entry, duplicate_entry] ''NM_007294'' = 1 # is)"
proof -
  have a: "acc_prefix (accession (flagged ''BRCA1'' ''NM_007294.4'')) = Inr ''NM_007294''"
    by (simp add: flagged_def line_feed_def)
  have b: "\<forall>x \<in> set [other_entry]. refseq x \<noteq> Str ''NM_007294''"
    by (simp add: other_entry_def)
  have c: "refseq brca1_text_entry = Str ''NM_007294''"
    by (simp add: brca1_text_entry_def)
  have d: "symbol_found (gene (flagged ''BRCA1'' ''NM_007294.4'')) brca1_text_entry = Inr True"
    by (simp add: symbol_found_def brca1_text_entry_def flagged_def)
  have e: "hgnc_row.hgnc brca1_text_entry = Str ''HGNC:1100''"
    by (simp add: brca1_text_entry_def)
  show ?thesis
    using resolve_first_match [OF a b c, of "[duplicate_entry]"] d e
    by simp
qed

text \<open>
  C3. When no entry's \<^verbatim>\<open>refseq\<close> cell is the extracted prefix, the record gets the
  identifier \<^verbatim>\<open>-\<close> and the loop goes on with the next record: the miss raises
  nothing.
\<close>

theorem resolve_miss_sentinel:
  assumes "acc_prefix (accession row) = Inr p"
    and "\<forall>x \<in> set hgnc_df. refseq x \<noteq> Str p"
  shows "resolve hgnc_df row = Inr (Str ''-'')
    \<and> get_hgncs hgnc_df (row # rows) =
        (case get_hgncs hgnc_df rows of
           Inl e \<Rightarrow> Inl e
         | Inr out \<Rightarrow> Inr (set_hgnc row (Str ''-'') # out))"
proof -
  have "resolve hgnc_df row = Inr (Str ''-'')"
    using assms(1) try_body_none [OF assms(2)] by (simp add: resolve_def)
  then show ?thesis by (simp add: get_hgncs_Cons)
qed

theorem resolve_miss_sentinel_witness:
  "resolve [other_entry, brca1_text_entry] (flagged ''ABC2'' ''NM_000111.2'') = Inr (Str ''-'')
   \<and> get_hgncs [other_entry, brca1_text_entry]
        [flagged ''ABC2'' ''NM_000111.2'', flagged ''BRCA1'' ''NM_007294.4'']
      = Inr [set_hgnc (flagged ''ABC2'' ''NM_000111.2'') (Str ''-''),
             set_hgnc (flagged ''BRCA1'' ''NM_007294.4'') (Str ''HGNC:1100'')]"
proof -
  have b: "\<forall>x \<in> set [other_entry, brca1_text_entry]. refseq x \<noteq> Str ''NM_000111''"
    by (simp add: other_entry_def brca1_text_entry_def)
  have c: "get_hgncs [other_entry, brca1_text_entry] [flagged ''BRCA1'' ''NM_007294.4'']
     = Inr [set_hgnc (flagged ''BRCA1'' ''NM_007294.4'') (Str ''HGNC:1100'')]"
    by (simp only: get_hgncs_Cons get_hgncs_Nil sample_resolve_brca1 sum.case)
  show ?thesis
    using resolve_miss_sentinel [OF acc_prefix_flagged_abc2 b,
        of "''ABC2''" "[flagged ''BRCA1'' ''NM_007294.4'']"] c
    by simp
qed

text \<open>
  C7. An accession is a field of the whitespace-delimited report, so it holds no line
  break. For such an accession with a full stop, the prefix the resolver extracts is the
  text before the first full stop. An accession without a full stop makes the record
  fail with \<^verbatim>\<open>AttributeError\<close>, which is not caught: no sentinel is assigned, and
  \<^verbatim>\<open>get_hgncs\<close> on any table that holds the record returns an error, not a table.
\<close>

theorem acc_prefix_first_full_stop:
  "(accession row = Str (p @ CHR ''.'' # rest) \<and> CHR ''.'' \<notin> set p \<and> line_feed \<notin> set p
      \<longrightarrow> acc_prefix (accession row) = Inr p)
   \<and> (accession row = Str acc \<and> CHR ''.'' \<notin> set acc
      \<longrightarrow> resolve hgnc_df row = Inl AttributeError
          \<and> (row \<in> set issues_df \<longrightarrow> (\<exists>e. get_hgncs hgnc_df issues_df = Inl e)))"
proof -
  have 1: "accession row = Str (p @ CHR ''.'' # rest) \<and> CHR ''.'' \<notin> set p
        \<and> line_feed \<notin> set p
      \<longrightarrow> acc_prefix (accession row) = Inr p"
    using acc_prefix_text [of p rest] by auto
  have 2: "accession row = Str acc \<and> CHR ''.'' \<notin> set acc
      \<longrightarrow> resolve hgnc_df row = Inl AttributeError
          \<and> (row \<in> set issues_df \<longrightarrow> (\<exists>e. get_hgncs hgnc_df issues_df = Inl e))"
    using resolve_no_full_stop [of row acc hgnc_df]
      get_hgncs_aborts [of row issues_df hgnc_df AttributeError] by blast
  from 1 2 show ?thesis by (intro conjI)
qed

theorem acc_prefix_first_full_stop_witness:
  "acc_prefix (accession (flagged ''BRCA1'' ''NM_007294.4'')) = Inr ''NM_007294''
   \<and> resolve [brca1_text_entry] (flagged ''BRCA1'' ''NM_007294'') = Inl AttributeError
   \<and> (\<exists>e. get_hgncs [brca1_text_entry]
             [flagged ''BRCA1'' ''NM_007294.4'', flagged ''BRCA1'' ''NM_007294''] = Inl e)"
proof -
  have p: "accession (flagged ''BRCA1'' ''NM_007294.4'') = Str (''NM_007294'' @ CHR ''.'' # ''4'')
      \<and> CHR ''.'' \<notin> set ''NM_007294'' \<and> line_feed \<notin> set ''NM_007294''"
    by (simp add: flagged_def line_feed_def)
  have r: "accession (flagged ''BRCA1'' ''NM_007294'') = Str ''NM_007294''
      \<and> CHR ''.'' \<notin> set ''NM_007294''"
    by (simp add: flagged_def)
  have m: "flagged ''BRCA1'' ''NM_007294''
     \<in> set [flagged ''BRCA1'' ''NM_007294.4'', flagged ''BRCA1'' ''NM_007294'']"
    by simp
  have 1: "acc_prefix (accession (flagged ''BRCA1'' ''NM_007294.4'')) = Inr ''NM_007294''"
    using acc_prefix_first_full_stop
      [of "flagged ''BRCA1'' ''NM_007294.4''" "''NM_007294''" "''4''"] p by blast
  note t = acc_prefix_first_full_stop
    [of "flagged ''BRCA1'' ''NM_007294''" _ _ "''NM_007294''" "[brca1_text_entry]"
        "[flagged ''BRCA1'' ''NM_007294.4'', flagged ''BRCA1'' ''NM_007294'']"]
  have 2: "resolve [brca1_text_entry] (flagged ''BRCA1'' ''NM_007294'') = Inl AttributeError"
    using t r by blast
  have 3: "\<exists>e. get_hgncs [brca1_text_entry]
             [flagged ''BRCA1'' ''NM_007294.4'', flagged ''BRCA1'' ''NM_007294''] = Inl e"
    using t r m by blast
  from 1 2 3 show ?thesis by (intro conjI)
qed

text \<open>
  C10. When \<^verbatim>\<open>get_hgncs\<close> succeeds, its table is the input with the column
  \<^verbatim>\<open>hgnc\<close> added: as many rows, in the same order, each with its gene, accession,
  exon position and percentage unchanged, and one identifier per row, the one resolved
  for that row.
\<close>

theorem get_hgncs_frame:
  assumes "get_hgncs hgnc_df issues_df = Inr out"
  shows "length out = length issues_df
    \<and> map issue.truncate out = issues_df
    \<and> map gene out = map gene issues_df
    \<and> map accession out = map accession issues_df
    \<and> map exon_position out = map exon_position issues_df
    \<and> map percent_x30 out = map percent_x30 issues_df
    \<and> list_all2 (\<lambda>row r. resolve hgnc_df row = Inr (resolved_issue.hgnc r)) issues_df out"
proof -
  note r = get_hgncs_rows [OF assms]
  have t: "map (\<lambda>r. f (issue.truncate r)) out = map f issues_df" for f :: "issue \<Rightarrow> 'b"
  proof -
    have "map (\<lambda>r. f (issue.truncate r)) out = map f (map issue.truncate out)"
      by (simp add: comp_def)
    then show ?thesis using r by simp
  qed
  have g: "map gene out = map gene issues_df"
    using t [of gene] by (simp add: issue.defs)
  have a: "map accession out = map accession issues_df"
    using t [of accession] by (simp add: issue.defs)
  have e: "map exon_position out = map exon_position issues_df"
    using t [of exon_position] by (simp add: issue.defs)
  have p: "map percent_x30 out = map percent_x30 issues_df"
    using t [of percent_x30] by (simp add: issue.defs)
  from r g a e p show ?thesis by (intro conjI) simp_all
qed

theorem get_hgncs_frame_witness:
  "get_hgncs [other_entry, brca1_text_entry]
        [flagged ''ABC2'' ''NM_000111.2'', flagged ''BRCA1'' ''NM_007294.4'']
      = Inr [set_hgnc (flagged ''ABC2'' ''NM_000111.2'') (Str ''-''),
             set_hgnc (flagged ''BRCA1'' ''NM_007294.4'') (Str ''HGNC:1100'')]
   \<and> map issue.truncate
        [set_hgnc (flagged ''ABC2'' ''NM_000111.2'') (Str ''-''),
         set_hgnc (flagged ''BRCA1'' ''NM_007294.4'') (Str ''HGNC:1100'')]
      = [flagged ''ABC2'' ''NM_000111.2'', flagged ''BRCA1'' ''NM_007294.4'']
   \<and> map gene
        [set_hgnc (flagged ''ABC2'' ''NM_000111.2'') (Str ''-''),
         set_hgnc (flagged ''BRCA1'' ''NM_007294.4'') (Str ''HGNC:1100'')]
      = map gene [flagged ''ABC2'' ''NM_000111.2'', flagged ''BRCA1'' ''NM_007294.4'']"
  using get_hgncs_frame [OF sample_get_hgncs] sample_get_hgncs by blast


section \<open>Properties of the Report Loader\<close>

lemma match_atoms_length:
  "match_atoms as s = Some r \<Longrightarrow> length s = length as + length r"
  by (induction as s rule: match_atoms.induct) (auto split: if_splits)

lemma match_atoms_rest:
  "match_atoms as s = Some r \<Longrightarrow> r = drop (length as) s"
  by (induction as s rule: match_atoms.induct) (auto split: if_splits)

lemma length_suffix_atoms: "length suffix_atoms = 20"
  by (simp add: suffix_atoms_def)

lemma at_suffix_length:
  assumes "at_suffix s"
  shows "length s = 20 \<or> (length s = 21 \<and> last s = line_feed)"
proof -
  from assms obtain r where m: "match_atoms suffix_atoms s = Some r" and e: "at_end r"
    by (auto simp: at_suffix_def split: option.splits)
  have len: "length s = 20 + length r"
    using match_atoms_length [OF m] by (simp only: length_suffix_atoms)
  have r: "r = drop 20 s"
    using match_atoms_rest [OF m] by (simp only: length_suffix_atoms)
  show ?thesis
  proof (cases "r = []")
    case True
    then show ?thesis using len by simp
  next
    case False
    then have "r = [line_feed]" using e by (simp add: at_end_def)
    moreover from this have "last s = last r" using r len
      by (metis False last_drop zero_less_diff add_diff_cancel_left' length_greater_0_conv)
    ultimately show ?thesis using len by simp
  qed
qed

lemma at_suffix_literal: "at_suffix ''.sambamba_output.txt''"
  by (simp add: at_suffix_def suffix_atoms_def at_end_def line_feed_def)

lemma not_at_suffix_longer:
  assumes "r \<noteq> []"
  shows "\<not> at_suffix (r @ ''.sambamba_output.txt'')"
proof
  assume "at_suffix (r @ ''.sambamba_output.txt'')"
  from at_suffix_length [OF this] show False
    using assms by (auto simp: line_feed_def)
qed

lemma output_prefix_literal:
  "line_feed \<notin> set p \<Longrightarrow> re_search at_suffix (p @ ''.sambamba_output.txt'') = Some p"
  by (intro re_search_shortest at_suffix_literal) (auto simp: not_at_suffix_longer)








lemma str_accessor_text:
  "c \<in> set col \<Longrightarrow> is_text c \<Longrightarrow> str_accessor col = Inr col"
  by (auto simp: str_accessor_def list_ex_iff)


lemma length_split_once: "length (split_once d s) = (if d \<in> set s then 2 else 1)"
  by (simp add: split_once_def)

lemma length_split_cell:
  "length (split_cell c) = (if \<exists>s. c = TextField s \<and> CHR '';'' \<in> set s then 2 else 1)"
  by (cases c) (simp_all add: length_split_once)

lemma max_len_le: "(\<forall>xs \<in> set xss. length xs \<le> k) \<Longrightarrow> max_len xss \<le> k"
  by (induction xss) (simp_all add: max_len_def)

lemma max_len_ge: "xs \<in> set xss \<Longrightarrow> length xs \<le> max_len xss"
  by (induction xss) (auto simp: max_len_def)


lemma columns_two:
  assumes "c \<in> set col" "c = TextField s" "CHR '';'' \<in> set s"
  shows "fst (str_split_expand col) = 2"
proof -
  have "\<forall>xs \<in> set (map split_cell col). length xs \<le> 2"
    by (auto simp: length_split_cell)
  then have "max_len (map split_cell col) \<le> 2" by (rule max_len_le)
  moreover have "length (split_cell c) \<le> max_len (map split_cell col)"
    using assms(1) by (intro max_len_ge) simp
  moreover have "length (split_cell c) = 2"
    using assms(2,3) by (simp add: length_split_once)
  ultimately show ?thesis by (simp add: str_split_expand_def Let_def)
qed

lemma map2_same: "map2 f xs (map g xs) = map (\<lambda>x. f x (g x)) xs"
  by (induction xs) simp_all




lemma create_df_split:
  assumes "row \<in> set rows" "GeneSymbol_Accession row = TextField s" "CHR '';'' \<in> set s"
  shows "create_df input_file rows =
     (case re_search at_suffix input_file of
        None \<Rightarrow> Inl AttributeError
      | Some output_prefix \<Rightarrow> Inr (output_prefix, map split_columns rows))"
proof -
  have m: "GeneSymbol_Accession row \<in> set (map GeneSymbol_Accession rows)"
    using assms(1) by simp
  have a: "str_accessor (map GeneSymbol_Accession rows) = Inr (map GeneSymbol_Accession rows)"
    using m by (rule str_accessor_text) (simp add: assms(2))
  have "fst (str_split_expand (map GeneSymbol_Accession rows)) = 2"
    using m assms(2,3) by (rule columns_two)
  then have "str_split_expand (map GeneSymbol_Accession rows)
     = (2, map (expand_row 2) (map split_cell (map GeneSymbol_Accession rows)))"
    by (simp add: str_split_expand_def Let_def)
  then show ?thesis
    using a map2_same [of add_columns rows "\<lambda>r. expand_row 2 (split_cell (GeneSymbol_Accession r))"]
    by (simp add: create_df_def comp_def split_columns_def [abs_def] split: option.splits)
qed

lemma create_df_literal:
  assumes "row \<in> set rows" "GeneSymbol_Accession row = TextField s" "CHR '';'' \<in> set s"
    and "line_feed \<notin> set p"
  shows "create_df (p @ ''.sambamba_output.txt'') rows = Inr (p, map split_columns rows)"
  using create_df_split [OF assms(1-3), of "p @ ''.sambamba_output.txt''"]
    output_prefix_literal [OF assms(4)]
  by simp








lemma create_df_loose_suffix:
  "re_search at_suffix ''s1_sambamba_output_txt'' = Some ''s1''"
  by (simp add: at_suffix_def suffix_atoms_def at_end_def line_feed_def)






section \<open>The claim about the Output Writer\<close>

lemma output_names_differ:
  "output_prefix @ ''.low_coverage_genes.txt'' \<noteq> output_prefix @ ''.low_coverage_gene_exons.xlsx''"
  by simp

text \<open>
  C8. \<^verbatim>\<open>create_outputs\<close> writes, under the name of the text file, the line
  \<^verbatim>\<open>Sample: <prefix>\<close>, an empty line, the header
  \<^verbatim>\<open>Genes with <100% coverage at 30x:\<close> and the gene list joined by line feeds; and,
  under the name of the workbook, a sheet whose first line is the five column names
  \<^verbatim>\<open>gene\<close>, \<^verbatim>\<open>accession\<close>, \<^verbatim>\<open>exon_position\<close>, \<^verbatim>\<open>percent_x30\<close>, \<^verbatim>\<open>hgnc\<close>, followed by one
  line per flagged row; every line has five cells, so there is no index column.
\<close>

theorem create_outputs_files:
  "create_outputs output_prefix issues_df problem_genes fs
       (output_prefix @ ''.low_coverage_genes.txt'')
     = Some (TextFile
         (''Sample: '' @ output_prefix @ [line_feed, line_feed]
            @ ''Genes with <100% coverage at 30x:'' @ [line_feed]
            @ join [line_feed] problem_genes))
   \<and> create_outputs output_prefix issues_df problem_genes fs
       (output_prefix @ ''.low_coverage_gene_exons.xlsx'')
     = Some (Workbook
         (map Text [''gene'', ''accession'', ''exon_position'', ''percent_x30'', ''hgnc'']
            # map sheet_row issues_df))
   \<and> length (to_excel issues_df) = Suc (length issues_df)
   \<and> list_all (\<lambda>line. length line = 5) (to_excel issues_df)
   \<and> sheet_row row
       = [text_cell (gene row), text_cell (accession row), text_cell (exon_position row),
          number_cell (percent_x30 row), text_cell (resolved_issue.hgnc row)]"
proof -
  have "list_all (\<lambda>line. length line = 5) (to_excel issues_df)"
    by (simp add: to_excel_def issues_columns_def sheet_row_def list_all_iff)
  then show ?thesis
    by (simp add: create_outputs_def Let_def gene_text_def to_excel_def issues_columns_def
          sheet_row_def)
qed

theorem create_outputs_files_witness:
  "create_outputs ''s1''
      [set_hgnc (flagged ''BRCA1'' ''NM_007294.4'') (Str ''HGNC:1100''),
       set_hgnc (flagged ''ABC2'' ''NM_000111.2'') (Str ''-'')]
      [''BRCA1'' @ [tab] @ ''NM_007294.4'' @ [tab] @ ''HGNC:1100'',
       ''ABC2'' @ [tab] @ ''NM_000111.2'' @ [tab] @ ''-'']
      Map.empty ''s1.low_coverage_genes.txt''
     = Some (TextFile
         (''Sample: s1'' @ [line_feed, line_feed]
            @ ''Genes with <100% coverage at 30x:'' @ [line_feed]
            @ ''BRCA1'' @ [tab] @ ''NM_007294.4'' @ [tab] @ ''HGNC:1100'' @ [line_feed]
            @ ''ABC2'' @ [tab] @ ''NM_000111.2'' @ [tab] @ ''-''))
   \<and> create_outputs ''s1''
      [set_hgnc (flagged ''BRCA1'' ''NM_007294.4'') (Str ''HGNC:1100''),
       set_hgnc (flagged ''ABC2'' ''NM_000111.2'') (Str ''-'')]
      [''BRCA1'' @ [tab] @ ''NM_007294.4'' @ [tab] @ ''HGNC:1100'',
       ''ABC2'' @ [tab] @ ''NM_000111.2'' @ [tab] @ ''-'']
      Map.empty ''s1.low_coverage_gene_exons.xlsx''
     = Some (Workbook
         [[Text ''gene'', Text ''accession'', Text ''exon_position'', Text ''percent_x30'',
           Text ''hgnc''],
          [Text ''BRCA1'', Text ''NM_007294.4'', Text ''chr17:41196312-41197819'', Number 95,
           Text ''HGNC:1100''],
          [Text ''ABC2'', Text ''NM_000111.2'', Text ''chr17:41196312-41197819'', Number 95,
           Text ''-'']])"
  using create_outputs_files
    [of "''s1''"
        "[set_hgnc (flagged ''BRCA1'' ''NM_007294.4'') (Str ''HGNC:1100''),
          set_hgnc (flagged ''ABC2'' ''NM_000111.2'') (Str ''-'')]"
        "[''BRCA1'' @ [tab] @ ''NM_007294.4'' @ [tab] @ ''HGNC:1100'',
          ''ABC2'' @ [tab] @ ''NM_000111.2'' @ [tab] @ ''-'']"
        Map.empty]
  by (simp add: sheet_row_def set_hgnc_def flagged_def issue.defs)

section \<open>The pipeline on an example\<close>

text \<open>
  The three report rows of the specification's examples against its reference row: the
  row at 100 percent appears in neither output, the row with a matching reference entry
  carries that entry's identifier, and the row without one carries \<^verbatim>\<open>-\<close>.
\<close>

lemma sample_create_df:
  "create_df ''s1.sambamba_output.txt'' sample_report
   = Inr (''s1'', map split_columns sample_report)"
proof -
  have "create_df (''s1'' @ ''.sambamba_output.txt'') sample_report
      = Inr (''s1'', map split_columns sample_report)"
    by (rule create_df_literal
          [of "raw_report_row ''BRCA1;NM_007294.4'' ''chr17:41196312-41197819'' 95" _
              "''BRCA1;NM_007294.4''"])
       (simp_all add: sample_report_def raw_report_row_def line_feed_def)
  then show ?thesis by simp
qed

lemma sample_find_coverage_issues:
  "find_coverage_issues (map split_columns sample_report) = [issue_brca1, issue_abc2]"
  by (simp add: find_coverage_issues_eq sample_report_def issue_brca1_def issue_abc2_def new_row_def
        split_columns_def add_columns_def expand_row_def split_once_def
        raw_report_row_def)

lemma sample_resolve_first:
  "resolve [brca1_text_entry] (issue_brca1) = Inr (Str ''HGNC:1100'')"
  using resolve_text_fields [of "issue_brca1" "''NM_007294''" "[]" brca1_text_entry
      "''BRCA1''" "''BRCA1''" "''BRCA1L''" "''FANCS''" "[]"]
  by (simp add: issue_brca1_def brca1_text_entry_def line_feed_def)

lemma sample_resolve_second:
  "resolve [brca1_text_entry] (issue_abc2) = Inr (Str ''-'')"
  by (rule resolve_miss [of _ "''NM_000111''"])
     (simp_all add: issue_abc2_def brca1_text_entry_def line_feed_def)

lemma sample_resolved:
  "get_hgncs [brca1_text_entry] [issue_brca1, issue_abc2]
   = Inr [set_hgnc issue_brca1 (Str ''HGNC:1100''), set_hgnc issue_abc2 (Str ''-'')]"
  by (simp only: get_hgncs_Cons get_hgncs_Nil sample_resolve_first sample_resolve_second
        sum.case)

lemma sample_genes:
  "unique_gene_list [set_hgnc (issue_brca1) (Str ''HGNC:1100''),
          set_hgnc (issue_abc2) (Str ''-'')]
   = [''BRCA1'' @ [tab] @ ''NM_007294.4'' @ [tab] @ ''HGNC:1100'',
      ''ABC2'' @ [tab] @ ''NM_000111.2'' @ [tab] @ ''-'']"
  by (simp add: unique_gene_list_def row_identifier_def set_hgnc_def issue_brca1_def issue_abc2_def
        issue.defs tab_def)

lemma sample_main:
  "main ''s1.sambamba_output.txt'' sample_report [brca1_text_entry] Map.empty
   = Inr [''s1.low_coverage_genes.txt'' \<mapsto>
            TextFile
              (''Sample: s1'' @ [line_feed, line_feed]
                 @ ''Genes with <100% coverage at 30x:'' @ [line_feed]
                 @ ''BRCA1'' @ [tab] @ ''NM_007294.4'' @ [tab] @ ''HGNC:1100'' @ [line_feed]
                 @ ''ABC2'' @ [tab] @ ''NM_000111.2'' @ [tab] @ ''-''),
          ''s1.low_coverage_gene_exons.xlsx'' \<mapsto>
            Workbook
              [[Text ''gene'', Text ''accession'', Text ''exon_position'',
                Text ''percent_x30'', Text ''hgnc''],
               [Text ''BRCA1'', Text ''NM_007294.4'', Text ''chr17:41196312-41197819'',
                Number 95, Text ''HGNC:1100''],
               [Text ''ABC2'', Text ''NM_000111.2'', Text ''chr2:300-400'', Number 80,
                Text ''-'']]]"
proof -
  have "main ''s1.sambamba_output.txt'' sample_report [brca1_text_entry] Map.empty
     = Inr (create_outputs ''s1''
         [set_hgnc (issue_brca1) (Str ''HGNC:1100''),
          set_hgnc (issue_abc2) (Str ''-'')]
         [''BRCA1'' @ [tab] @ ''NM_007294.4'' @ [tab] @ ''HGNC:1100'',
          ''ABC2'' @ [tab] @ ''NM_000111.2'' @ [tab] @ ''-'']
         Map.empty)"
    by (simp add: main_def sample_create_df sample_find_coverage_issues sample_resolved
          sample_genes)
  then show ?thesis
    by (simp add: create_outputs_def gene_text_def to_excel_def issues_columns_def
          sheet_row_def set_hgnc_def issue_brca1_def issue_abc2_def issue.defs)
qed

end
